theory Spec2Isabelle
  imports Main "HOL-Library.AList"
begin

section \<open>JavaScript values\<close>

text \<open>
  The server (\<^verbatim>\<open>src/index.js\<close>) moves JSON between an HTTP caller, the hosted
  backend and three AI providers. Values are modelled as the JavaScript values the code
  handles: \<^verbatim>\<open>undefined\<close>, \<^verbatim>\<open>null\<close>, booleans, numbers, strings, arrays and
  plain objects. An object is the list of its own properties in insertion order; the
  objects the program meets come from \<^verbatim>\<open>JSON.parse\<close> or from object literals, so their
  keys are distinct. No handler computes with a number, so numbers are carried as
  integers. Console output is not part of the model, but a \<^verbatim>\<open>TypeError\<close> raised
  while building a log line is.
\<close>

datatype jsval =
    JUndefined
  | JNull
  | JBool bool
  | JNum int
  | JStr string
  | JArr "jsval list"
  | JObj "(string \<times> jsval) list"

text \<open>What the engine raises by itself: the three kinds of \<^verbatim>\<open>TypeError\<close> the handlers can meet.\<close>

datatype fault =
    ReadOfNullish string
  | NotAFunction string
  | NotIterable

text \<open>A value caught by \<^verbatim>\<open>catch\<close>: one thrown by the code, or an engine \<^verbatim>\<open>TypeError\<close>.\<close>

datatype thrown = Thrown jsval | TypeError fault

text \<open>\<^verbatim>\<open>!!v\<close>: the truthiness that \<^verbatim>\<open>if (v)\<close>, \<^verbatim>\<open>!v\<close> and \<^verbatim>\<open>v || w\<close> test.\<close>

fun truthy :: "jsval \<Rightarrow> bool" where
  "truthy JUndefined = False"
| "truthy JNull = False"
| "truthy (JBool b) = b"
| "truthy (JNum n) = (n \<noteq> 0)"
| "truthy (JStr s) = (s \<noteq> [])"
| "truthy (JArr xs) = True"
| "truthy (JObj kvs) = True"

text \<open>\<^verbatim>\<open>a || b\<close>\<close>

definition js_or :: "jsval \<Rightarrow> jsval \<Rightarrow> jsval" where
  "js_or a b = (if truthy a then a else b)"

fun nullish :: "jsval \<Rightarrow> bool" where
  "nullish JUndefined = True"
| "nullish JNull = True"
| "nullish v = False"

text \<open>
  \<^verbatim>\<open>v.k\<close> for a value that is not nullish and a key \<open>k\<close> that no built-in prototype
  defines (the handlers read \<^verbatim>\<open>id\<close>, \<^verbatim>\<open>message\<close>, \<^verbatim>\<open>user\<close>, \<^verbatim>\<open>text\<close>,
  \<^verbatim>\<open>title\<close>, \<^verbatim>\<open>model\<close>, \<^verbatim>\<open>messages\<close>, \<^verbatim>\<open>stream\<close>, \<^verbatim>\<open>prompt\<close>,
  \<^verbatim>\<open>history\<close>, \<^verbatim>\<open>files\<close>, \<^verbatim>\<open>response\<close> and \<^verbatim>\<open>status\<close>): an own property
  of an object, \<^verbatim>\<open>undefined\<close> otherwise.
\<close>

fun get_prop :: "jsval \<Rightarrow> string \<Rightarrow> jsval" where
  "get_prop (JObj kvs) k = (case map_of kvs k of Some v \<Rightarrow> v | None \<Rightarrow> JUndefined)"
| "get_prop v k = JUndefined"

text \<open>\<^verbatim>\<open>v.k\<close> and \<^verbatim>\<open>const { k } = v\<close> in general: reading a property of
  \<^verbatim>\<open>undefined\<close> or \<^verbatim>\<open>null\<close> raises.\<close>

definition read_prop :: "jsval \<Rightarrow> string \<Rightarrow> thrown + jsval" where
  "read_prop v k = (if nullish v then Inl (TypeError (ReadOfNullish k)) else Inr (get_prop v k))"


text \<open>Decimal digits of an array index, the property key \<^verbatim>\<open>String(i)\<close>.\<close>

fun string_of_nat :: "nat \<Rightarrow> string" where
  "string_of_nat n =
     (if n < 10 then [char_of (48 + n)]
      else string_of_nat (n div 10) @ [char_of (48 + n mod 10)])"

text \<open>
  The own enumerable properties that \<^verbatim>\<open>{ ...v }\<close> copies: those of an object, the
  indexed elements of an array or of a string, none for any other value.
\<close>

fun spread :: "jsval \<Rightarrow> (string \<times> jsval) list" where
  "spread (JObj kvs) = kvs"
| "spread (JArr xs) = zip (map string_of_nat [0..<length xs]) xs"
| "spread (JStr s) = zip (map string_of_nat [0..<length s]) (map (\<lambda>c. JStr [c]) s)"
| "spread v = []"

text \<open>
  \<^verbatim>\<open>{ ...v, k: x }\<close>: the copied properties, with \<open>k\<close> set to \<open>x\<close> last. Setting
  a key that is already there replaces its value in place; a new key is appended.
\<close>

definition spread_with :: "jsval \<Rightarrow> string \<Rightarrow> jsval \<Rightarrow> jsval" where
  "spread_with v k x = JObj (AList.update k x (spread v))"

text \<open>\<^verbatim>\<open>s.split(c)\<close> for a one-character separator: the pieces between the separators,
  empty pieces included.\<close>

fun split :: "char \<Rightarrow> string \<Rightarrow> string list" where
  "split c [] = [[]]"
| "split c (x # xs) =
     (if x = c then [] # split c xs
      else (case split c xs of [] \<Rightarrow> [[x]] | w # ws \<Rightarrow> (x # w) # ws))"

text \<open>\<^verbatim>\<open>xs[i]\<close> on an array: \<^verbatim>\<open>undefined\<close> (here \<open>None\<close>) out of range.\<close>

definition at_index :: "'a list \<Rightarrow> nat \<Rightarrow> 'a option" where
  "at_index xs i = (if i < length xs then Some (xs ! i) else None)"

section \<open>Requests, responses and the outside world\<close>

text \<open>What a handler reads of the request: \<^verbatim>\<open>req.headers.authorization\<close> (absent is
  \<open>None\<close>), \<^verbatim>\<open>req.params.id\<close> and \<^verbatim>\<open>req.body\<close>.\<close>

record request =
  authorization :: "string option"
  params_id :: string
  body :: jsval

text \<open>What the caller is sent: \<^verbatim>\<open>res.json(v)\<close>, \<^verbatim>\<open>res.send(s)\<close>, an upstream byte
  stream piped into \<^verbatim>\<open>res\<close> chunk by chunk, a response without a body, or the error
  page that the framework's final handler writes when an error leaves a handler (its
  text is the framework's own and depends on the environment).\<close>

datatype content = Json jsval | Text string | Piped "string list" | NoBody | ErrorPage

record response =
  status :: jsval
  headers :: "(string \<times> string) list"
  content :: content

text \<open>\<^verbatim>\<open>res.json(v)\<close> with the default status, and \<^verbatim>\<open>res.status(n).json(v)\<close> for
  the literal statuses 401 and 500 that the handlers write out, which the response
  library accepts.\<close>

definition res_json :: "jsval \<Rightarrow> response" where
  "res_json v = \<lparr>status = JNum 200, headers = [], content = Json v\<rparr>"

definition res_status_json :: "jsval \<Rightarrow> jsval \<Rightarrow> response" where
  "res_status_json n v = \<lparr>status = n, headers = [], content = Json v\<rparr>"



text \<open>A backend client as \<^verbatim>\<open>createClient(url, key, { global: { headers } })\<close> builds
  it: every call made through it carries these headers.\<close>

record client =
  client_url :: "string option"
  client_key :: "string option"
  client_headers :: "(string \<times> string) list"

definition createClient ::
  "string option \<Rightarrow> string option \<Rightarrow> (string \<times> string) list \<Rightarrow> client" where
  "createClient url key hs = \<lparr>client_url = url, client_key = key, client_headers = hs\<rparr>"

text \<open>A query as the builder chain writes it: \<^verbatim>\<open>from(table)\<close>, the operation, then the
  chained calls in order.\<close>

datatype operation = SelectOp string | InsertOp jsval | UpdateOp jsval | DeleteOp

datatype step =
    StepEq string jsval
  | StepIn string "jsval list"
  | StepOrder string bool
  | StepSelect
  | StepSingle

datatype query = Query string operation "step list"

text \<open>The \<^verbatim>\<open>{ data, error }\<close> that an awaited backend call yields.\<close>

record reply =
  data :: jsval
  error :: jsval

text \<open>The calls that leave the process, in the order they are made.\<close>

datatype effect =
    AuthGetUser client
  | Db client query
  | AxiosPost string jsval "(string \<times> string) list" string
  | OpenAICreate jsval
  | GeminiGenerate jsval

text \<open>
  Everything outside the process is a parameter: the environment variables, the answers
  of the identity backend and of the data backend to a call made through a given client,
  the clock (\<^verbatim>\<open>new Date().toISOString()\<close>), the providers' answers, and the wording
  the engine gives a \<^verbatim>\<open>TypeError\<close>. A rejected promise carries an \<^verbatim>\<open>Error\<close> object,
  given by its properties.
\<close>

datatype 'a awaited = Fulfilled 'a | RejectedWith "(string \<times> jsval) list"

record world =
  OPENROUTER_API_KEY :: "string option"
  SUPABASE_URL :: "string option"
  SUPABASE_KEY :: "string option"
  auth_getUser :: "client \<Rightarrow> reply awaited"
  db :: "client \<Rightarrow> query \<Rightarrow> reply awaited"
  now_iso :: string
  axios_post_json :: "jsval \<Rightarrow> jsval awaited"
  axios_post_stream :: "jsval \<Rightarrow> string list awaited"
  openai_completions_create :: "jsval \<Rightarrow> jsval awaited"
  genAI_generateContent :: "jsval \<Rightarrow> jsval awaited"
  describe :: "fault \<Rightarrow> string"

text \<open>An environment variable as a value, and inside a template string.\<close>

definition env_value :: "string option \<Rightarrow> jsval" where
  "env_value v = (case v of None \<Rightarrow> JUndefined | Some s \<Rightarrow> JStr s)"


section \<open>The body of a \<^verbatim>\<open>try\<close> block\<close>

text \<open>A computation inside \<^verbatim>\<open>try\<close>: the calls made so far, and either the thrown
  value at which it stopped or its result.\<close>

type_synonym 'a action = "effect list \<times> (thrown + 'a)"

definition ret :: "'a \<Rightarrow> 'a action" where
  "ret x = ([], Inr x)"

definition throw :: "thrown \<Rightarrow> 'a action" where
  "throw e = ([], Inl e)"

definition check :: "thrown + 'a \<Rightarrow> 'a action" where
  "check r = ([], r)"

definition and_then :: "'a action \<Rightarrow> ('a \<Rightarrow> 'b action) \<Rightarrow> 'b action" where
  "and_then m f =
     (case m of
        (es, Inl e) \<Rightarrow> (es, Inl e)
      | (es, Inr x) \<Rightarrow> (case f x of (es', r) \<Rightarrow> (es @ es', r)))"

text \<open>\<^verbatim>\<open>await\<close> of an outside call: the call is made; a rejection is thrown.\<close>

definition await :: "effect \<Rightarrow> 'a awaited \<Rightarrow> 'a action" where
  "await e p =
     ([e], case p of Fulfilled x \<Rightarrow> Inr x | RejectedWith err \<Rightarrow> Inl (Thrown (JObj err)))"

text \<open>\<^verbatim>\<open>try { ... } catch (error) { ... }\<close> around a handler body: the catch block
  sends the response.\<close>

definition try_catch ::
  "response action \<Rightarrow> (thrown \<Rightarrow> response) \<Rightarrow> effect list \<times> response" where
  "try_catch m h = (case m of (es, Inl e) \<Rightarrow> (es, h e) | (es, Inr r) \<Rightarrow> (es, r))"

text \<open>\<^verbatim>\<open>error.message\<close> in a catch block of a data handler, where the caught value is a
  truthy \<^verbatim>\<open>error\<close> of a reply, a rejection or a \<^verbatim>\<open>TypeError\<close>.\<close>

definition message_of :: "world \<Rightarrow> thrown \<Rightarrow> jsval" where
  "message_of w e =
     (case e of Thrown v \<Rightarrow> get_prop v ''message'' | TypeError f \<Rightarrow> JStr (describe w f))"

section \<open>The auth guard\<close>

record auth_request = request +
  userClient :: client
  user :: jsval

text \<open>
  \<^verbatim>\<open>authenticateUser\<close> (lines 111-141). The token is
  \<^verbatim>\<open>req.headers.authorization?.split(' ')[1]\<close>; \<^verbatim>\<open>!token\<close> holds for \<^verbatim>\<open>undefined\<close>
  and for the empty string. \<open>next\<close> is the route's handler, run on the request with the
  client and the user attached.
\<close>

definition bearer_token :: "request \<Rightarrow> string option" where
  "bearer_token req =
     (case authorization req of
        None \<Rightarrow> None
      | Some h \<Rightarrow> at_index (split CHR '' '' h) 1)"

text \<open>The client made for the request:
  \<^verbatim>\<open>createClient(SUPABASE_URL, SUPABASE_KEY, { global: { headers: { Authorization: `Bearer ${token}` } } })\<close>.\<close>

text \<open>The module creates a client from the same url and key when it is loaded (line 108),
  so the server only runs with values that \<^verbatim>\<open>createClient\<close> accepts: in the guard it
  does not throw.\<close>

definition user_client :: "world \<Rightarrow> string \<Rightarrow> client" where
  "user_client w token =
     createClient (SUPABASE_URL w) (SUPABASE_KEY w) [(''Authorization'', ''Bearer '' @ token)]"

definition attach :: "request \<Rightarrow> client \<Rightarrow> jsval \<Rightarrow> auth_request" where
  "attach req c u =
     \<lparr>authorization = authorization req, params_id = params_id req, body = body req,
      userClient = c, user = u\<rparr>"

definition authenticateUser ::
  "world \<Rightarrow> request \<Rightarrow> (auth_request \<Rightarrow> effect list \<times> response) \<Rightarrow> effect list \<times> response"
where
  "authenticateUser w req next =
     (case bearer_token req of
        None \<Rightarrow> ([], res_status_json (JNum 401) (JObj [(''error'', JStr ''Unauthorized'')]))
      | Some token \<Rightarrow>
          if token = [] then
            ([], res_status_json (JNum 401) (JObj [(''error'', JStr ''Unauthorized'')]))
          else
            try_catch
              (let userClient = user_client w token
               in and_then (await (AuthGetUser userClient) (auth_getUser w userClient)) (\<lambda>r.
                  and_then (check (read_prop (data r) ''user'')) (\<lambda>u.
                    if truthy (error r) \<or> \<not> truthy u then
                      ret (res_status_json (JNum 401) (JObj [(''error'', JStr ''Invalid token'')]))
                    else
                      (case next (attach req userClient u) of (es, resp) \<Rightarrow> (es, Inr resp)))))
              (\<lambda>err. res_status_json (JNum 500) (JObj [(''error'', JStr ''Internal Auth Error'')])))"

section \<open>The data routes\<close>

text \<open>The catch block every data handler ends with:
  \<^verbatim>\<open>res.status(500).json({ error: error.message })\<close>.\<close>

definition db_catch :: "world \<Rightarrow> thrown \<Rightarrow> response" where
  "db_catch w e = res_status_json (JNum 500) (JObj [(''error'', message_of w e)])"

text \<open>\<^verbatim>\<open>if (error) throw error;\<close> on a reply, then the rest.\<close>

definition unless_error :: "reply \<Rightarrow> 'a action \<Rightarrow> 'a action" where
  "unless_error r m = (if truthy (error r) then throw (Thrown (error r)) else m)"

text \<open>\<^verbatim>\<open>GET /api/db/conversations\<close> (lines 145-159). The log line reads
  \<^verbatim>\<open>data.length\<close>, which raises when \<^verbatim>\<open>data\<close> is nullish.\<close>

definition list_conversations :: "world \<Rightarrow> auth_request \<Rightarrow> effect list \<times> response" where
  "list_conversations w req =
     try_catch
       (let q = Query ''conversations'' (SelectOp ''*'') [StepOrder ''updated_at'' False]
        in and_then (await (Db (userClient req) q) (db w (userClient req) q)) (\<lambda>r.
           unless_error r
             (if nullish (data r) then throw (TypeError (ReadOfNullish ''length''))
              else ret (res_json (data r)))))
       (db_catch w)"

text \<open>\<^verbatim>\<open>nodes.map(n => n.id)\<close>: \<^verbatim>\<open>nodes\<close> must be an array, and no element nullish.\<close>

fun map_id :: "jsval list \<Rightarrow> thrown + jsval list" where
  "map_id [] = Inr []"
| "map_id (n # ns) =
     (case read_prop n ''id'' of
        Inl e \<Rightarrow> Inl e
      | Inr i \<Rightarrow> (case map_id ns of Inl e \<Rightarrow> Inl e | Inr is \<Rightarrow> Inr (i # is)))"

definition node_ids :: "jsval \<Rightarrow> thrown + jsval list" where
  "node_ids nodes =
     (case nodes of
        JArr ns \<Rightarrow> map_id ns
      | JUndefined \<Rightarrow> Inl (TypeError (ReadOfNullish ''map''))
      | JNull \<Rightarrow> Inl (TypeError (ReadOfNullish ''map''))
      | _ \<Rightarrow> Inl (TypeError (NotAFunction ''map'')))"

text \<open>\<^verbatim>\<open>GET /api/db/conversations/:id\<close> (lines 164-184).\<close>

definition nodes_query :: "string \<Rightarrow> query" where
  "nodes_query cid = Query ''nodes'' (SelectOp ''*'') [StepEq ''conversations_id'' (JStr cid)]"

definition messages_query :: "jsval list \<Rightarrow> query" where
  "messages_query ids =
     Query ''messages'' (SelectOp ''*'') [StepIn ''nodes_id'' ids, StepOrder ''ordinal'' True]"

definition get_conversation :: "world \<Rightarrow> auth_request \<Rightarrow> effect list \<times> response" where
  "get_conversation w req =
     try_catch
       (let q1 = nodes_query (params_id req)
        in and_then (await (Db (userClient req) q1) (db w (userClient req) q1)) (\<lambda>r1.
           unless_error r1
             (and_then (check (node_ids (data r1))) (\<lambda>ids.
              let q2 = messages_query ids
              in and_then (await (Db (userClient req) q2) (db w (userClient req) q2)) (\<lambda>r2.
                 unless_error r2
                   (ret (res_json (JObj [(''nodes'', data r1), (''messages'', data r2)]))))))))
       (db_catch w)"

text \<open>
  The four insert handlers (lines 189-198, 203-212, 235-244, 283-292) are the same code
  on four tables: \<^verbatim>\<open>payload = { ...req.body, user_id: req.user.id }\<close>, then
  \<^verbatim>\<open>from(table).insert(payload).select().single()\<close>. \<^verbatim>\<open>req.user\<close> is truthy here,
  so reading its \<^verbatim>\<open>id\<close> cannot raise.
\<close>

definition insert_payload :: "auth_request \<Rightarrow> jsval" where
  "insert_payload req = spread_with (body req) ''user_id'' (get_prop (user req) ''id'')"

definition insert_query :: "string \<Rightarrow> jsval \<Rightarrow> query" where
  "insert_query table payload = Query table (InsertOp payload) [StepSelect, StepSingle]"

definition insert_row :: "string \<Rightarrow> world \<Rightarrow> auth_request \<Rightarrow> effect list \<times> response" where
  "insert_row table w req =
     try_catch
       (let payload = insert_payload req;
            q = insert_query table payload
        in and_then (await (Db (userClient req) q) (db w (userClient req) q)) (\<lambda>r.
           unless_error r (ret (res_json (data r)))))
       (db_catch w)"

definition create_conversation :: "world \<Rightarrow> auth_request \<Rightarrow> effect list \<times> response" where
  "create_conversation = insert_row ''conversations''"

definition create_node :: "world \<Rightarrow> auth_request \<Rightarrow> effect list \<times> response" where
  "create_node = insert_row ''nodes''"

definition create_message :: "world \<Rightarrow> auth_request \<Rightarrow> effect list \<times> response" where
  "create_message = insert_row ''messages''"

definition report_bug :: "world \<Rightarrow> auth_request \<Rightarrow> effect list \<times> response" where
  "report_bug = insert_row ''bug_reports''"

text \<open>\<^verbatim>\<open>PATCH /api/db/nodes/:id\<close> (lines 217-230): \<^verbatim>\<open>const { title } = req.body\<close>, then
  \<^verbatim>\<open>update({ title }).eq('id', id)\<close>.\<close>

definition title_query :: "string \<Rightarrow> jsval \<Rightarrow> query" where
  "title_query nid title =
     Query ''nodes'' (UpdateOp (JObj [(''title'', title)])) [StepEq ''id'' (JStr nid)]"

definition update_node_title :: "world \<Rightarrow> auth_request \<Rightarrow> effect list \<times> response" where
  "update_node_title w req =
     try_catch
       (and_then (check (read_prop (body req) ''title'')) (\<lambda>title.
        let q = title_query (params_id req) title
        in and_then (await (Db (userClient req) q) (db w (userClient req) q)) (\<lambda>r.
           unless_error r (ret (res_json (JObj [(''success'', JBool True)]))))))
       (db_catch w)"

text \<open>\<^verbatim>\<open>PATCH /api/db/conversations/:id\<close> (lines 249-261):
  \<^verbatim>\<open>update({ ...req.body, updated_at: new Date().toISOString() }).eq('id', id)\<close>.\<close>

definition update_payload :: "world \<Rightarrow> auth_request \<Rightarrow> jsval" where
  "update_payload w req = spread_with (body req) ''updated_at'' (JStr (now_iso w))"

definition update_query :: "string \<Rightarrow> jsval \<Rightarrow> query" where
  "update_query cid payload =
     Query ''conversations'' (UpdateOp payload) [StepEq ''id'' (JStr cid)]"

definition update_conversation :: "world \<Rightarrow> auth_request \<Rightarrow> effect list \<times> response" where
  "update_conversation w req =
     try_catch
       (let q = update_query (params_id req) (update_payload w req)
        in and_then (await (Db (userClient req) q) (db w (userClient req) q)) (\<lambda>r.
           unless_error r (ret (res_json (JObj [(''success'', JBool True)])))))
       (db_catch w)"

text \<open>\<^verbatim>\<open>DELETE /api/db/conversations/:id\<close> (lines 266-278).\<close>

definition delete_conversation :: "world \<Rightarrow> auth_request \<Rightarrow> effect list \<times> response" where
  "delete_conversation w req =
     try_catch
       (let q = Query ''conversations'' DeleteOp [StepEq ''id'' (JStr (params_id req))]
        in and_then (await (Db (userClient req) q) (db w (userClient req) q)) (\<lambda>r.
           unless_error r (ret (res_json (JObj [(''success'', JBool True)])))))
       (db_catch w)"

text \<open>The routes under \<^verbatim>\<open>/api/db/\<close>: each is registered as
  \<^verbatim>\<open>app.METHOD(path, authenticateUser, handler)\<close>.\<close>

datatype db_route =
    GetConversations
  | GetConversation
  | PostConversations
  | PostNodes
  | PatchNode
  | PostMessages
  | PatchConversation
  | DeleteConversation
  | PostBugs

fun db_handler :: "db_route \<Rightarrow> world \<Rightarrow> auth_request \<Rightarrow> effect list \<times> response" where
  "db_handler GetConversations = list_conversations"
| "db_handler GetConversation = get_conversation"
| "db_handler PostConversations = create_conversation"
| "db_handler PostNodes = create_node"
| "db_handler PatchNode = update_node_title"
| "db_handler PostMessages = create_message"
| "db_handler PatchConversation = update_conversation"
| "db_handler DeleteConversation = delete_conversation"
| "db_handler PostBugs = report_bug"

definition serve_db :: "db_route \<Rightarrow> world \<Rightarrow> request \<Rightarrow> effect list \<times> response" where
  "serve_db route w req = authenticateUser w req (db_handler route w)"

section \<open>Configuration and health\<close>

text \<open>\<^verbatim>\<open>GET /api/config/supabase\<close> (lines 299-304) and \<^verbatim>\<open>GET /health\<close> (307-309).\<close>

definition config_supabase :: "world \<Rightarrow> effect list \<times> response" where
  "config_supabase w =
     ([], res_json (JObj [(''url'', env_value (SUPABASE_URL w)),
                         (''key'', env_value (SUPABASE_KEY w))]))"

definition health :: "effect list \<times> response" where
  "health = ([], \<lparr>status = JNum 200, headers = [], content = Text ''OK''\<rparr>)"

section \<open>The AI provider relays\<close>












text \<open>\<^verbatim>\<open>[...v]\<close>: the elements of an array, the characters of a string; any other value
  is not iterable.\<close>

definition iterate :: "jsval \<Rightarrow> thrown + jsval list" where
  "iterate v =
     (case v of
        JArr xs \<Rightarrow> Inr xs
      | JStr s \<Rightarrow> Inr (map (\<lambda>c. JStr [c]) s)
      | _ \<Rightarrow> Inl (TypeError NotIterable))"

text \<open>\<^verbatim>\<open>POST /api/gemini/generate\<close> (lines 86-101). \<^verbatim>\<open>files\<close> is destructured and
  never read again.\<close>

definition user_turn :: "jsval \<Rightarrow> jsval" where
  "user_turn prompt =
     JObj [(''role'', JStr ''user''), (''parts'', JArr [JObj [(''text'', prompt)]])]"

definition gemini_args :: "jsval \<Rightarrow> jsval list \<Rightarrow> jsval \<Rightarrow> jsval" where
  "gemini_args modelName hs prompt =
     JObj [(''model'', js_or modelName (JStr ''gemini-1.5-flash'')),
           (''contents'', JArr (hs @ [user_turn prompt]))]"

definition gemini_catch :: "thrown \<Rightarrow> response" where
  "gemini_catch e =
     res_status_json (JNum 500) (JObj [(''error'', JStr ''Failed to fetch from Gemini'')])"

definition gemini_try :: "world \<Rightarrow> request \<Rightarrow> response action" where
  "gemini_try w req =
     and_then (check (read_prop (body req) ''model'')) (\<lambda>modelName.
     let prompt = get_prop (body req) ''prompt'';
         history = get_prop (body req) ''history''
     in and_then (check (iterate (js_or history (JArr [])))) (\<lambda>hs.
        let args = gemini_args modelName hs prompt
        in and_then (await (GeminiGenerate args) (genAI_generateContent w args)) (\<lambda>response.
           and_then (check (read_prop response ''text'')) (\<lambda>text.
           ret (res_json (JObj [(''text'', text)]))))))"

definition gemini_generate :: "world \<Rightarrow> request \<Rightarrow> effect list \<times> response" where
  "gemini_generate w req = try_catch (gemini_try w req) gemini_catch"

section \<open>Sample worlds and requests\<close>

text \<open>A backend that knows one token, \<^verbatim>\<open>good\<close>, and answers any other with an error.\<close>

definition sample_user :: jsval where
  "sample_user = JObj [(''id'', JStr ''user-1''), (''email'', JStr ''u@example.org'')]"

definition sample_getUser :: "client \<Rightarrow> reply awaited" where
  "sample_getUser c =
     (if client_headers c = [(''Authorization'', ''Bearer good'')] then
        Fulfilled \<lparr>data = JObj [(''user'', sample_user)], error = JNull\<rparr>
      else
        Fulfilled \<lparr>data = JObj [(''user'', JNull)],
                   error = JObj [(''message'', JStr ''JWT expired'')]\<rparr>)"

text \<open>A data backend that returns an inserted row with an \<^verbatim>\<open>id\<close> added, two nodes
  for any node query and one message for any message query.\<close>

definition sample_db :: "client \<Rightarrow> query \<Rightarrow> reply awaited" where
  "sample_db c q =
     (case q of
        Query t (InsertOp p) ss \<Rightarrow>
          Fulfilled \<lparr>data = JObj (AList.update ''id'' (JNum 1) (spread p)), error = JNull\<rparr>
      | Query t (SelectOp cols) ss \<Rightarrow>
          (if t = ''nodes'' then
             Fulfilled \<lparr>data = JArr [JObj [(''id'', JNum 10)], JObj [(''id'', JNum 11)]],
                        error = JNull\<rparr>
           else
             Fulfilled \<lparr>data = JArr [JObj [(''nodes_id'', JNum 10), (''ordinal'', JNum 0)]],
                        error = JNull\<rparr>)
      | Query t (UpdateOp p) ss \<Rightarrow> Fulfilled \<lparr>data = JNull, error = JNull\<rparr>
      | Query t DeleteOp ss \<Rightarrow> Fulfilled \<lparr>data = JNull, error = JNull\<rparr>)"

definition upstream_429 :: "(string \<times> jsval) list" where
  "upstream_429 =
     [(''message'', JStr ''Request failed with status code 429''),
      (''response'', JObj [(''status'', JNum 429),
                          (''data'', JObj [(''error'', JStr ''rate limited: key sk-123'')])])]"


definition sample_world :: world where
  "sample_world =
     \<lparr>OPENROUTER_API_KEY = Some ''or-key'',
      SUPABASE_URL = Some ''https://project.supabase.co'',
      SUPABASE_KEY = Some ''anon-key'',
      auth_getUser = sample_getUser,
      db = sample_db,
      now_iso = ''2024-05-01T10:00:00.000Z'',
      axios_post_json = (\<lambda>p. RejectedWith upstream_429),
      axios_post_stream = (\<lambda>p. RejectedWith upstream_429),
      openai_completions_create = (\<lambda>a. RejectedWith [(''message'', JStr ''401 bad key'')]),
      genAI_generateContent =
        (\<lambda>a. Fulfilled (JObj [(''text'', JStr ''hello''), (''candidates'', JArr [])])),
      describe = (\<lambda>f. ''TypeError'')\<rparr>"

text \<open>The same world with a data backend that answers every query with an error, with
  one whose every call rejects, with an OpenRouter upstream that answers 304, and with a
  Gemini provider that rejects.\<close>

definition failing_db_world :: world where
  "failing_db_world =
     sample_world\<lparr>db := (\<lambda>c q. Fulfilled
        \<lparr>data = JNull, error = JObj [(''message'', JStr ''permission denied'')]\<rparr>)\<rparr>"

definition rejecting_db_world :: world where
  "rejecting_db_world =
     sample_world\<lparr>db := (\<lambda>c q. RejectedWith [(''message'', JStr ''fetch failed'')])\<rparr>"



text \<open>The same world configured with the service key, as the comment on lines 106-107
  allows.\<close>

definition service_key_world :: world where
  "service_key_world = sample_world\<lparr>SUPABASE_KEY := Some ''service-role-key''\<rparr>"

definition sample_request :: "string option \<Rightarrow> jsval \<Rightarrow> request" where
  "sample_request h b = \<lparr>authorization = h, params_id = ''42'', body = b\<rparr>"

text \<open>The token as the tenth claim words it, ``the substring after the first space'',
  to be compared with \<open>bearer_token\<close>.\<close>

definition after_first_space :: "string \<Rightarrow> string option" where
  "after_first_space h =
     (if CHR '' '' \<in> set h then Some (tl (dropWhile (\<lambda>c. c \<noteq> CHR '' '') h)) else None)"

section \<open>Running the guard and the handlers\<close>

lemmas action_defs = ret_def throw_def check_def and_then_def await_def try_catch_def unless_error_def

lemma split_nonempty: "split c s \<noteq> []"
  by (induction s) (auto split: list.splits)

lemma split_takeWhile:
  "split c s = takeWhile (\<lambda>x. x \<noteq> c) s #
     (if c \<in> set s then split c (tl (dropWhile (\<lambda>x. x \<noteq> c) s)) else [])"
  by (induction s) (auto split: list.splits simp: split_nonempty)

lemma auth_pass:
  assumes "bearer_token req = Some tok" and "tok \<noteq> []"
    and "auth_getUser w (user_client w tok) = Fulfilled r"
    and "read_prop (data r) ''user'' = Inr u"
    and "\<not> truthy (error r)" and "truthy u"
  shows "authenticateUser w req next =
           (AuthGetUser (user_client w tok) # fst (next (attach req (user_client w tok) u)),
            snd (next (attach req (user_client w tok) u)))"
  using assms by (auto simp add: authenticateUser_def action_defs Let_def split: prod.splits)

lemma auth_reject:
  assumes "bearer_token req = Some tok" and "tok \<noteq> []"
    and "auth_getUser w (user_client w tok) = Fulfilled r"
    and "read_prop (data r) ''user'' = Inr u"
    and "truthy (error r) \<or> \<not> truthy u"
  shows "authenticateUser w req next =
           ([AuthGetUser (user_client w tok)],
            res_status_json (JNum 401) (JObj [(''error'', JStr ''Invalid token'')]))"
  using assms by (auto simp add: authenticateUser_def action_defs Let_def split: prod.splits)

lemma auth_missing:
  assumes "bearer_token req = None \<or> bearer_token req = Some []"
  shows "authenticateUser w req next =
           ([], res_status_json (JNum 401) (JObj [(''error'', JStr ''Unauthorized'')]))"
  using assms by (auto simp add: authenticateUser_def)


lemma auth_starts:
  assumes "bearer_token req = Some tok" and "tok \<noteq> []"
  shows "\<exists>es resp. authenticateUser w req next = (AuthGetUser (user_client w tok) # es, resp)"
  using assms
  by (auto simp add: authenticateUser_def action_defs Let_def split: prod.splits awaited.splits sum.splits)

lemma get_prop_spread_with:
  "get_prop (spread_with v k x) k' = (if k' = k then x else get_prop (JObj (spread v)) k')"
  by (simp add: spread_with_def update_conv')

lemma map_id_ok:
  "\<forall>n\<in>set ns. \<not> nullish n \<Longrightarrow> map_id ns = Inr (map (\<lambda>n. get_prop n ''id'') ns)"
  by (induction ns) (auto simp: read_prop_def)

lemma insert_row_run:
  "insert_row t w req =
     ([Db (userClient req) (insert_query t (insert_payload req))],
      case db w (userClient req) (insert_query t (insert_payload req)) of
        Fulfilled r \<Rightarrow>
          if truthy (error r) then db_catch w (Thrown (error r)) else res_json (data r)
      | RejectedWith err \<Rightarrow> db_catch w (Thrown (JObj err)))"
  by (simp add: insert_row_def action_defs Let_def split: awaited.splits)


lemma attach_simps:
  "userClient (attach req c u) = c" "user (attach req c u) = u"
  "body (attach req c u) = body req" "params_id (attach req c u) = params_id req"
  by (simp_all add: attach_def)

lemma db_handler_insert:
  "(route, table) \<in> {(PostConversations, ''conversations''), (PostNodes, ''nodes''),
      (PostMessages, ''messages''), (PostBugs, ''bug_reports'')}
   \<Longrightarrow> db_handler route = insert_row table"
  by (auto simp: create_conversation_def create_node_def create_message_def report_bug_def)

lemma sample_good:
  "bearer_token (sample_request (Some ''Bearer good'') b) = Some ''good''"
  "auth_getUser sample_world (user_client sample_world ''good'') =
     Fulfilled \<lparr>data = JObj [(''user'', sample_user)], error = JNull\<rparr>"
  "read_prop (JObj [(''user'', sample_user)]) ''user'' = Inr sample_user"
  "truthy sample_user"
  by (simp_all add: bearer_token_def sample_request_def at_index_def sample_world_def
        sample_getUser_def user_client_def createClient_def read_prop_def sample_user_def)

section \<open>Inserts carry the verified user id\<close>

text \<open>
  C1. On the four insert routes, once the guard has verified the token as user \<open>u\<close>,
  the handler makes exactly one data call, an insert of the request body's properties
  with \<^verbatim>\<open>user_id\<close> set to \<open>u\<close>'s \<^verbatim>\<open>id\<close>: a \<^verbatim>\<open>user_id\<close> in the body is
  replaced, every other property is the body's. When the backend answers without an
  error, the response is the row it returned for that insert.
\<close>

theorem insert_user_id_from_identity:
  assumes "bearer_token req = Some tok" and "tok \<noteq> []"
    and "auth_getUser w (user_client w tok) = Fulfilled r"
    and "read_prop (data r) ''user'' = Inr u"
    and "\<not> truthy (error r)" and "truthy u"
    and "(route, table) \<in> {(PostConversations, ''conversations''), (PostNodes, ''nodes''),
           (PostMessages, ''messages''), (PostBugs, ''bug_reports'')}"
    and "p = spread_with (body req) ''user_id'' (get_prop u ''id'')"
  shows "fst (serve_db route w req) =
           [AuthGetUser (user_client w tok), Db (user_client w tok) (insert_query table p)]
         \<and> get_prop p ''user_id'' = get_prop u ''id''
         \<and> (\<forall>k. k \<noteq> ''user_id'' \<longrightarrow> get_prop p k = get_prop (JObj (spread (body req))) k)
         \<and> (\<forall>rep. db w (user_client w tok) (insert_query table p) = Fulfilled rep
                \<and> \<not> truthy (error rep)
              \<longrightarrow> snd (serve_db route w req) = res_json (data rep))"
proof -
  let ?c = "user_client w tok"
  have h: "db_handler route = insert_row table"
    using assms(7) by (rule db_handler_insert)
  have pay: "insert_payload (attach req ?c u) = p"
    by (simp add: insert_payload_def attach_simps assms(8))
  have run: "serve_db route w req =
      (AuthGetUser ?c # fst (insert_row table w (attach req ?c u)),
       snd (insert_row table w (attach req ?c u)))"
    unfolding serve_db_def h by (rule auth_pass [OF assms(1-6)])
  have sent: "fst (serve_db route w req) = [AuthGetUser ?c, Db ?c (insert_query table p)]"
    by (simp add: run insert_row_run attach_simps pay)
  have own: "get_prop p ''user_id'' = get_prop u ''id''"
    by (simp add: assms(8) get_prop_spread_with)
  have rest: "\<forall>k. k \<noteq> ''user_id'' \<longrightarrow> get_prop p k = get_prop (JObj (spread (body req))) k"
    by (simp add: assms(8) get_prop_spread_with)
  have answer: "\<forall>rep. db w ?c (insert_query table p) = Fulfilled rep \<and> \<not> truthy (error rep)
                \<longrightarrow> snd (serve_db route w req) = res_json (data rep)"
    by (simp add: run insert_row_run attach_simps pay)
  from sent own rest answer show ?thesis by blast
qed

text \<open>A body that names another user is sent with the verified user's id.\<close>

theorem insert_user_id_from_identity_witness:
  "fst (serve_db PostConversations sample_world
          (sample_request (Some ''Bearer good'')
             (JObj [(''title'', JStr ''Test''), (''user_id'', JStr ''intruder'')]))) =
     [AuthGetUser (user_client sample_world ''good''),
      Db (user_client sample_world ''good'')
        (insert_query ''conversations''
           (JObj [(''title'', JStr ''Test''), (''user_id'', JStr ''user-1'')]))]
   \<and> snd (serve_db PostConversations sample_world
          (sample_request (Some ''Bearer good'')
             (JObj [(''title'', JStr ''Test''), (''user_id'', JStr ''intruder'')]))) =
     res_json (JObj [(''title'', JStr ''Test''), (''user_id'', JStr ''user-1''),
                     (''id'', JNum 1)])"
proof -
  let ?b = "JObj [(''title'', JStr ''Test''), (''user_id'', JStr ''intruder'')]"
  let ?p = "JObj [(''title'', JStr ''Test''), (''user_id'', JStr ''user-1'')]"
  have p: "?p = spread_with (body (sample_request (Some ''Bearer good'') ?b)) ''user_id''
                  (get_prop sample_user ''id'')"
    by (simp add: spread_with_def sample_request_def sample_user_def)
  have rep: "db sample_world (user_client sample_world ''good'')
               (insert_query ''conversations'' ?p) =
             Fulfilled \<lparr>data = JObj [(''title'', JStr ''Test''), (''user_id'', JStr ''user-1''),
                                     (''id'', JNum 1)], error = JNull\<rparr>"
    by (simp add: sample_world_def sample_db_def insert_query_def)
  have "(PostConversations, ''conversations'') \<in> {(PostConversations, ''conversations''),
           (PostNodes, ''nodes''), (PostMessages, ''messages''), (PostBugs, ''bug_reports'')}"
    by simp
  from insert_user_id_from_identity [OF sample_good(1) _ sample_good(2) _ _ sample_good(4) this p]
    rep sample_good(3)
  show ?thesis by simp
qed

section \<open>Requests without a valid token\<close>

lemma sample_stale:
  "bearer_token (sample_request (Some ''Bearer stale'') b) = Some ''stale''"
  "auth_getUser sample_world (user_client sample_world ''stale'') =
     Fulfilled \<lparr>data = JObj [(''user'', JNull)],
                error = JObj [(''message'', JStr ''JWT expired'')]\<rparr>"
  "read_prop (JObj [(''user'', JNull)]) ''user'' = Inr JNull"
  by (simp_all add: bearer_token_def sample_request_def at_index_def sample_world_def
        sample_getUser_def user_client_def createClient_def read_prop_def)

text \<open>
  C3 as stated fails: a request whose token the identity backend rejects is answered 401,
  but only after the identity verification call has been made.
\<close>

theorem rejected_token_reaches_identity_backend:
  "fst (serve_db GetConversations sample_world (sample_request (Some ''Bearer stale'') JUndefined)) =
     [AuthGetUser (user_client sample_world ''stale'')]
   \<and> fst (serve_db GetConversations sample_world (sample_request (Some ''Bearer stale'') JUndefined))
       \<noteq> []
   \<and> status (snd (serve_db GetConversations sample_world
         (sample_request (Some ''Bearer stale'') JUndefined))) = JNum 401"
proof -
  have "serve_db GetConversations sample_world (sample_request (Some ''Bearer stale'') JUndefined) =
          ([AuthGetUser (user_client sample_world ''stale'')],
           res_status_json (JNum 401) (JObj [(''error'', JStr ''Invalid token'')]))"
    unfolding serve_db_def
    by (rule auth_reject [OF sample_stale(1) _ sample_stale(2)]) (simp_all add: sample_stale(3))
  then show ?thesis by (simp add: res_status_json_def)
qed

text \<open>
  C3, amended. A request from which the guard extracts no token (no \<^verbatim>\<open>Authorization\<close>
  header, or no non-empty second piece in it) is answered 401 \<^verbatim>\<open>Unauthorized\<close> and no
  backend call is made. A request whose token the identity backend rejects (it returns
  an error or no user) is answered 401 after the identity verification call alone: no
  data operation is attempted.
\<close>

theorem unauthorized_without_data_call:
  "(bearer_token req = None \<or> bearer_token req = Some [] \<longrightarrow>
      serve_db route w req =
        ([], res_status_json (JNum 401) (JObj [(''error'', JStr ''Unauthorized'')])))
   \<and> (bearer_token req = Some tok \<and> tok \<noteq> []
        \<and> auth_getUser w (user_client w tok) = Fulfilled r
        \<and> read_prop (data r) ''user'' = Inr u
        \<and> (truthy (error r) \<or> \<not> truthy u) \<longrightarrow>
      fst (serve_db route w req) = [AuthGetUser (user_client w tok)]
      \<and> status (snd (serve_db route w req)) = JNum 401)"
proof (intro conjI impI)
  assume "bearer_token req = None \<or> bearer_token req = Some []"
  then show "serve_db route w req =
        ([], res_status_json (JNum 401) (JObj [(''error'', JStr ''Unauthorized'')]))"
    unfolding serve_db_def by (rule auth_missing)
next
  assume a: "bearer_token req = Some tok \<and> tok \<noteq> []
        \<and> auth_getUser w (user_client w tok) = Fulfilled r
        \<and> read_prop (data r) ''user'' = Inr u
        \<and> (truthy (error r) \<or> \<not> truthy u)"
  then have run: "serve_db route w req =
      ([AuthGetUser (user_client w tok)],
       res_status_json (JNum 401) (JObj [(''error'', JStr ''Invalid token'')]))"
    unfolding serve_db_def by (intro auth_reject [where r = r and u = u]) simp_all
  show "fst (serve_db route w req) = [AuthGetUser (user_client w tok)]"
    by (simp add: run)
  show "status (snd (serve_db route w req)) = JNum 401"
    by (simp add: run res_status_json_def)
qed

theorem unauthorized_without_data_call_witness:
  "serve_db PostNodes sample_world (sample_request None (JObj [(''title'', JStr ''n'')])) =
     ([], res_status_json (JNum 401) (JObj [(''error'', JStr ''Unauthorized'')]))
   \<and> fst (serve_db PostNodes sample_world
            (sample_request (Some ''Bearer stale'') (JObj [(''title'', JStr ''n'')]))) =
       [AuthGetUser (user_client sample_world ''stale'')]
   \<and> status (snd (serve_db PostNodes sample_world
            (sample_request (Some ''Bearer stale'') (JObj [(''title'', JStr ''n'')])))) = JNum 401"
proof -
  have none: "bearer_token (sample_request None (JObj [(''title'', JStr ''n'')])) = None"
    by (simp add: bearer_token_def sample_request_def)
  from unauthorized_without_data_call
         [where req = "sample_request None (JObj [(''title'', JStr ''n'')])"
            and route = PostNodes and w = sample_world]
       unauthorized_without_data_call
         [where req = "sample_request (Some ''Bearer stale'') (JObj [(''title'', JStr ''n'')])"
            and tok = "''stale''" and w = sample_world and u = JNull and route = PostNodes
            and r = "\<lparr>data = JObj [(''user'', JNull)],
                error = JObj [(''message'', JStr ''JWT expired'')]\<rparr>"]
       none sample_stale
  show ?thesis by simp
qed

section \<open>A rejected token\<close>

text \<open>
  C4 as stated fails: the identity backend rejects the token with the message
  \<^verbatim>\<open>JWT expired\<close>, and the response body is \<^verbatim>\<open>{ error: 'Invalid token' }\<close>; the
  backend's message is not in it.
\<close>

theorem invalid_token_message_is_fixed:
  "auth_getUser sample_world (user_client sample_world ''stale'') =
     Fulfilled \<lparr>data = JObj [(''user'', JNull)],
                error = JObj [(''message'', JStr ''JWT expired'')]\<rparr>
   \<and> snd (serve_db GetConversations sample_world
            (sample_request (Some ''Bearer stale'') JUndefined)) =
       \<lparr>status = JNum 401, headers = [],
        content = Json (JObj [(''error'', JStr ''Invalid token'')])\<rparr>
   \<and> content (snd (serve_db GetConversations sample_world
            (sample_request (Some ''Bearer stale'') JUndefined))) \<noteq>
       Json (JObj [(''error'', JStr ''JWT expired'')])"
proof -
  have "serve_db GetConversations sample_world (sample_request (Some ''Bearer stale'') JUndefined) =
          ([AuthGetUser (user_client sample_world ''stale'')],
           res_status_json (JNum 401) (JObj [(''error'', JStr ''Invalid token'')]))"
    unfolding serve_db_def
    by (rule auth_reject [OF sample_stale(1) _ sample_stale(2)]) (simp_all add: sample_stale(3))
  then show ?thesis by (simp add: res_status_json_def sample_stale(2))
qed

text \<open>
  C4, amended. When the token is present and the identity backend returns an error or no
  user, the guard answers 401 with the fixed body \<^verbatim>\<open>{ error: 'Invalid token' }\<close>,
  whatever the backend's message, after the identity verification call alone; the
  route's handler is not run, so the outcome is the same for every handler and route.
\<close>

theorem rejected_token_fixed_401:
  assumes "bearer_token req = Some tok" and "tok \<noteq> []"
    and "auth_getUser w (user_client w tok) = Fulfilled r"
    and "read_prop (data r) ''user'' = Inr u"
    and "truthy (error r) \<or> \<not> truthy u"
  shows "authenticateUser w req next =
           ([AuthGetUser (user_client w tok)],
            \<lparr>status = JNum 401, headers = [],
             content = Json (JObj [(''error'', JStr ''Invalid token'')])\<rparr>)
         \<and> serve_db route w req = authenticateUser w req next"
proof -
  have "authenticateUser w req f =
           ([AuthGetUser (user_client w tok)],
            res_status_json (JNum 401) (JObj [(''error'', JStr ''Invalid token'')]))" for f
    by (rule auth_reject [OF assms])
  then show ?thesis by (simp add: serve_db_def res_status_json_def)
qed

theorem rejected_token_fixed_401_witness:
  "authenticateUser sample_world (sample_request (Some ''Bearer stale'') JUndefined)
     (\<lambda>areq. ([OpenAICreate JNull], res_json JNull)) =
     ([AuthGetUser (user_client sample_world ''stale'')],
      \<lparr>status = JNum 401, headers = [],
       content = Json (JObj [(''error'', JStr ''Invalid token'')])\<rparr>)"
proof -
  have "truthy (error \<lparr>data = JObj [(''user'', JNull)],
                error = JObj [(''message'', JStr ''JWT expired'')]\<rparr>) \<or> \<not> truthy JNull"
    by simp
  from rejected_token_fixed_401 [OF sample_stale(1) _ sample_stale(2) _ this]
  show ?thesis by (simp add: sample_stale(3))
qed

section \<open>How the token is cut out of the header\<close>

lemma hd_split: "hd (split c s) = takeWhile (\<lambda>x. x \<noteq> c) s"
  by (subst split_takeWhile) simp

lemma at_index_second:
  "at_index (x # ys) (Suc 0) = (if ys = [] then None else Some (hd ys))"
  by (cases ys) (simp_all add: at_index_def)

lemma second_piece:
  "at_index (split c h) (Suc 0) =
     (if c \<in> set h then Some (takeWhile (\<lambda>x. x \<noteq> c) (tl (dropWhile (\<lambda>x. x \<noteq> c) h))) else None)"
  by (subst split_takeWhile) (simp add: at_index_second split_nonempty hd_split)

lemma scheme_token:
  assumes "c \<notin> set scheme" and "c \<notin> set tok"
  shows "at_index (split c (scheme @ c # tok)) (Suc 0) = Some tok"
proof -
  have "dropWhile (\<lambda>x. x \<noteq> c) (scheme @ c # tok) = c # tok"
    using assms(1) by (induction scheme) auto
  moreover have "takeWhile (\<lambda>x. x \<noteq> c) tok = tok"
    using assms(2) by (induction tok) auto
  ultimately show ?thesis by (simp add: second_piece)
qed

text \<open>
  C10 as stated fails: for the header \<^verbatim>\<open>Bearer a b\<close> the substring after the first
  space is \<^verbatim>\<open>a b\<close>, but the guard verifies the token \<^verbatim>\<open>a\<close>.
\<close>

theorem token_beyond_second_space_dropped:
  "bearer_token (sample_request (Some ''Bearer a b'') JUndefined) = Some ''a''
   \<and> after_first_space ''Bearer a b'' = Some ''a b''
   \<and> fst (serve_db GetConversations sample_world
            (sample_request (Some ''Bearer a b'') JUndefined)) =
       [AuthGetUser (user_client sample_world ''a'')]"
proof -
  have t: "bearer_token (sample_request (Some ''Bearer a b'') JUndefined) = Some ''a''"
    by (simp add: bearer_token_def sample_request_def at_index_def)
  have g: "auth_getUser sample_world (user_client sample_world ''a'') =
     Fulfilled \<lparr>data = JObj [(''user'', JNull)],
                error = JObj [(''message'', JStr ''JWT expired'')]\<rparr>"
    by (simp add: sample_world_def sample_getUser_def user_client_def createClient_def)
  have "serve_db GetConversations sample_world (sample_request (Some ''Bearer a b'') JUndefined) =
          ([AuthGetUser (user_client sample_world ''a'')],
           res_status_json (JNum 401) (JObj [(''error'', JStr ''Invalid token'')]))"
    unfolding serve_db_def
    by (rule auth_reject [OF t _ g]) (simp_all add: sample_stale(3))
  then show ?thesis using t by (simp add: after_first_space_def)
qed

text \<open>
  C10, amended. The token is the piece of the \<^verbatim>\<open>Authorization\<close> header between its
  first and its second space (up to the end when there is no second space), and the
  scheme is not checked: a header \<^verbatim>\<open><scheme> <token>\<close> with no space inside the scheme
  or the token and a non-empty token proceeds to identity verification with that token,
  and a header with no space at all is answered 401 with no backend call.
\<close>

theorem token_is_second_piece:
  "(authorization req = Some h \<longrightarrow>
      bearer_token req =
        (if CHR '' '' \<in> set h
         then Some (takeWhile (\<lambda>c. c \<noteq> CHR '' '') (tl (dropWhile (\<lambda>c. c \<noteq> CHR '' '') h)))
         else None))
   \<and> (authorization req = Some (scheme @ CHR '' '' # tok) \<and> CHR '' '' \<notin> set scheme
        \<and> CHR '' '' \<notin> set tok \<and> tok \<noteq> [] \<longrightarrow>
      (\<exists>es resp. serve_db route w req = (AuthGetUser (user_client w tok) # es, resp)))
   \<and> (authorization req = Some h \<and> CHR '' '' \<notin> set h \<longrightarrow>
      serve_db route w req =
        ([], res_status_json (JNum 401) (JObj [(''error'', JStr ''Unauthorized'')])))"
proof (intro conjI impI)
  assume "authorization req = Some h"
  then show "bearer_token req =
        (if CHR '' '' \<in> set h
         then Some (takeWhile (\<lambda>c. c \<noteq> CHR '' '') (tl (dropWhile (\<lambda>c. c \<noteq> CHR '' '') h)))
         else None)"
    by (simp add: bearer_token_def second_piece)
next
  assume a: "authorization req = Some (scheme @ CHR '' '' # tok) \<and> CHR '' '' \<notin> set scheme
        \<and> CHR '' '' \<notin> set tok \<and> tok \<noteq> []"
  then have "bearer_token req = Some tok"
    by (simp add: bearer_token_def scheme_token)
  with a show "\<exists>es resp. serve_db route w req = (AuthGetUser (user_client w tok) # es, resp)"
    unfolding serve_db_def by (intro auth_starts) simp_all
next
  assume "authorization req = Some h \<and> CHR '' '' \<notin> set h"
  then have "bearer_token req = None"
    by (simp add: bearer_token_def second_piece)
  then show "serve_db route w req =
        ([], res_status_json (JNum 401) (JObj [(''error'', JStr ''Unauthorized'')]))"
    unfolding serve_db_def by (intro auth_missing) simp
qed

theorem token_is_second_piece_witness:
  "bearer_token (sample_request (Some ''Bearer a b'') JNull) = Some ''a''
   \<and> (\<exists>es resp. serve_db DeleteConversation sample_world (sample_request (Some ''Basic good'') JNull) =
         (AuthGetUser (user_client sample_world ''good'') # es, resp))
   \<and> serve_db DeleteConversation sample_world (sample_request (Some ''good'') JNull) =
        ([], res_status_json (JNum 401) (JObj [(''error'', JStr ''Unauthorized'')]))"
proof -
  have 1: "authorization (sample_request (Some ''Bearer a b'') JNull) = Some ''Bearer a b''"
    and 2: "authorization (sample_request (Some ''Basic good'') JNull) = Some (''Basic'' @ CHR '' '' # ''good'')"
    and 3: "authorization (sample_request (Some ''good'') JNull) = Some ''good''"
    by (simp_all add: sample_request_def)
  from token_is_second_piece [where req = "sample_request (Some ''Bearer a b'') JNull"
          and h = "''Bearer a b''"]
       token_is_second_piece [where req = "sample_request (Some ''Basic good'') JNull"
          and scheme = "''Basic''" and tok = "''good''" and route = DeleteConversation
          and w = sample_world]
       token_is_second_piece [where req = "sample_request (Some ''good'') JNull"
          and h = "''good''" and route = DeleteConversation and w = sample_world]
       1 2 3
  show ?thesis by simp
qed

section \<open>Conversation detail\<close>

lemma get_conversation_run:
  "get_conversation w req =
     (case db w (userClient req) (nodes_query (params_id req)) of
        RejectedWith err \<Rightarrow>
          ([Db (userClient req) (nodes_query (params_id req))], db_catch w (Thrown (JObj err)))
      | Fulfilled r1 \<Rightarrow>
          if truthy (error r1) then
            ([Db (userClient req) (nodes_query (params_id req))], db_catch w (Thrown (error r1)))
          else
            (case node_ids (data r1) of
               Inl e \<Rightarrow> ([Db (userClient req) (nodes_query (params_id req))], db_catch w e)
             | Inr ids \<Rightarrow>
                 ([Db (userClient req) (nodes_query (params_id req)),
                   Db (userClient req) (messages_query ids)],
                  case db w (userClient req) (messages_query ids) of
                    RejectedWith err \<Rightarrow> db_catch w (Thrown (JObj err))
                  | Fulfilled r2 \<Rightarrow>
                      if truthy (error r2) then db_catch w (Thrown (error r2))
                      else res_json (JObj [(''nodes'', data r1), (''messages'', data r2)]))))"
  by (simp add: get_conversation_def action_defs Let_def split: awaited.splits sum.splits)

lemma db_catch_thrown:
  "db_catch w (Thrown v) = res_status_json (JNum 500) (JObj [(''error'', get_prop v ''message'')])"
  by (simp add: db_catch_def message_of_def)

lemma failing_good:
  "auth_getUser failing_db_world (user_client failing_db_world ''good'') =
     Fulfilled \<lparr>data = JObj [(''user'', sample_user)], error = JNull\<rparr>"
  "db failing_db_world c q =
     Fulfilled \<lparr>data = JNull, error = JObj [(''message'', JStr ''permission denied'')]\<rparr>"
  by (simp_all add: failing_db_world_def sample_world_def sample_getUser_def user_client_def
        createClient_def)

lemma rejecting_good:
  "auth_getUser rejecting_db_world (user_client rejecting_db_world ''good'') =
     Fulfilled \<lparr>data = JObj [(''user'', sample_user)], error = JNull\<rparr>"
  "db rejecting_db_world c q = RejectedWith [(''message'', JStr ''fetch failed'')]"
  by (simp_all add: rejecting_db_world_def sample_world_def sample_getUser_def user_client_def
        createClient_def)

text \<open>
  C5. On \<^verbatim>\<open>GET /api/db/conversations/:id\<close>, once the guard has passed: when the node
  fetch returns an error (or rejects), the only data call made is the node fetch, no
  message fetch follows, and the response is the error response carrying the node-fetch
  error's message, with no nodes in it. When the node fetch returns rows and the message
  fetch for their ids returns without error, the response is
  \<^verbatim>\<open>{ nodes, messages }\<close> with both collections.
\<close>

theorem conversation_detail_all_or_nothing:
  assumes "bearer_token req = Some tok" and "tok \<noteq> []"
    and "auth_getUser w (user_client w tok) = Fulfilled r"
    and "read_prop (data r) ''user'' = Inr u"
    and "\<not> truthy (error r)" and "truthy u"
    and "c = user_client w tok" and "q = nodes_query (params_id req)"
  shows "(db w c q = Fulfilled r1 \<and> truthy (error r1) \<longrightarrow>
            serve_db GetConversation w req =
              ([AuthGetUser c, Db c q],
               res_status_json (JNum 500) (JObj [(''error'', get_prop (error r1) ''message'')])))
         \<and> (db w c q = RejectedWith err \<longrightarrow>
            serve_db GetConversation w req =
              ([AuthGetUser c, Db c q],
               res_status_json (JNum 500) (JObj [(''error'', get_prop (JObj err) ''message'')])))
         \<and> (db w c q = Fulfilled r1 \<and> \<not> truthy (error r1) \<and> data r1 = JArr ns
              \<and> (\<forall>n\<in>set ns. \<not> nullish n)
              \<and> db w c (messages_query (map (\<lambda>n. get_prop n ''id'') ns)) = Fulfilled r2
              \<and> \<not> truthy (error r2) \<longrightarrow>
            serve_db GetConversation w req =
              ([AuthGetUser c, Db c q, Db c (messages_query (map (\<lambda>n. get_prop n ''id'') ns))],
               res_json (JObj [(''nodes'', data r1), (''messages'', data r2)])))"
proof -
  have run: "serve_db GetConversation w req =
      (AuthGetUser c # fst (get_conversation w (attach req c u)),
       snd (get_conversation w (attach req c u)))"
    unfolding serve_db_def assms(7) db_handler.simps by (rule auth_pass [OF assms(1-6)])
  have a: "db w c q = Fulfilled r1 \<Longrightarrow> truthy (error r1) \<Longrightarrow>
      get_conversation w (attach req c u) =
        ([Db c q], res_status_json (JNum 500) (JObj [(''error'', get_prop (error r1) ''message'')]))"
    by (simp add: get_conversation_run attach_simps assms(8) db_catch_thrown)
  have b: "db w c q = RejectedWith err \<Longrightarrow>
      get_conversation w (attach req c u) =
        ([Db c q], res_status_json (JNum 500) (JObj [(''error'', get_prop (JObj err) ''message'')]))"
    by (simp add: get_conversation_run attach_simps assms(8) db_catch_thrown)
  have d: "db w c q = Fulfilled r1 \<Longrightarrow> \<not> truthy (error r1) \<Longrightarrow> data r1 = JArr ns \<Longrightarrow>
      \<forall>n\<in>set ns. \<not> nullish n \<Longrightarrow>
      db w c (messages_query (map (\<lambda>n. get_prop n ''id'') ns)) = Fulfilled r2 \<Longrightarrow>
      \<not> truthy (error r2) \<Longrightarrow>
      get_conversation w (attach req c u) =
        ([Db c q, Db c (messages_query (map (\<lambda>n. get_prop n ''id'') ns))],
         res_json (JObj [(''nodes'', data r1), (''messages'', data r2)]))"
    by (simp add: get_conversation_run attach_simps assms(8) node_ids_def map_id_ok)
  show ?thesis
    using a b d by (simp add: run)
qed


theorem conversation_detail_all_or_nothing_witness:
  "serve_db GetConversation failing_db_world (sample_request (Some ''Bearer good'') JUndefined) =
     ([AuthGetUser (user_client failing_db_world ''good''),
       Db (user_client failing_db_world ''good'') (nodes_query ''42'')],
      res_status_json (JNum 500) (JObj [(''error'', JStr ''permission denied'')]))
   \<and> serve_db GetConversation rejecting_db_world (sample_request (Some ''Bearer good'') JUndefined) =
     ([AuthGetUser (user_client rejecting_db_world ''good''),
       Db (user_client rejecting_db_world ''good'') (nodes_query ''42'')],
      res_status_json (JNum 500) (JObj [(''error'', JStr ''fetch failed'')]))
   \<and> serve_db GetConversation sample_world (sample_request (Some ''Bearer good'') JUndefined) =
     ([AuthGetUser (user_client sample_world ''good''),
       Db (user_client sample_world ''good'') (nodes_query ''42''),
       Db (user_client sample_world ''good'') (messages_query [JNum 10, JNum 11])],
      res_json (JObj [(''nodes'', JArr [JObj [(''id'', JNum 10)], JObj [(''id'', JNum 11)]]),
                      (''messages'', JArr [JObj [(''nodes_id'', JNum 10), (''ordinal'', JNum 0)]])]))"
proof -
  let ?req = "sample_request (Some ''Bearer good'') JUndefined"
  have id: "params_id ?req = ''42''"
    by (simp add: sample_request_def)
  have e: "\<not> truthy (error \<lparr>data = JObj [(''user'', sample_user)], error = JNull\<rparr>)"
    by simp
  have u: "read_prop (data \<lparr>data = JObj [(''user'', sample_user)], error = JNull\<rparr>) ''user'' =
             Inr sample_user"
    by (simp add: sample_good(3))
  have n: "db sample_world c (nodes_query ''42'') =
      Fulfilled \<lparr>data = JArr [JObj [(''id'', JNum 10)], JObj [(''id'', JNum 11)]], error = JNull\<rparr>"
    for c by (simp add: sample_world_def sample_db_def nodes_query_def)
  have m: "db sample_world c (messages_query ids) =
      Fulfilled \<lparr>data = JArr [JObj [(''nodes_id'', JNum 10), (''ordinal'', JNum 0)]], error = JNull\<rparr>"
    for c ids by (simp add: sample_world_def sample_db_def messages_query_def)
  note bad = conversation_detail_all_or_nothing
    [OF sample_good(1) _ failing_good(1) u e sample_good(4) refl refl,
     where ?r1.0 = "\<lparr>data = JNull, error = JObj [(''message'', JStr ''permission denied'')]\<rparr>"]
  note rejected = conversation_detail_all_or_nothing
    [OF sample_good(1) _ rejecting_good(1) u e sample_good(4) refl refl,
     where err = "[(''message'', JStr ''fetch failed'')]"]
  note good = conversation_detail_all_or_nothing
    [OF sample_good(1) _ sample_good(2) u e sample_good(4) refl refl,
     where ?r1.0 = "\<lparr>data = JArr [JObj [(''id'', JNum 10)], JObj [(''id'', JNum 11)]], error = JNull\<rparr>"
       and ns = "[JObj [(''id'', JNum 10)], JObj [(''id'', JNum 11)]]"
       and ?r2.0 = "\<lparr>data = JArr [JObj [(''nodes_id'', JNum 10), (''ordinal'', JNum 0)]], error = JNull\<rparr>"]
  from bad rejected good show ?thesis
    by (simp add: id failing_good(2) rejecting_good(2) n m)
qed

section \<open>Updating a conversation\<close>

lemma update_conversation_run:
  "update_conversation w req =
     ([Db (userClient req) (update_query (params_id req) (update_payload w req))],
      case db w (userClient req) (update_query (params_id req) (update_payload w req)) of
        Fulfilled r \<Rightarrow>
          if truthy (error r) then db_catch w (Thrown (error r))
          else res_json (JObj [(''success'', JBool True)])
      | RejectedWith err \<Rightarrow> db_catch w (Thrown (JObj err)))"
  by (simp add: update_conversation_def action_defs Let_def split: awaited.splits)

text \<open>
  C6. On \<^verbatim>\<open>PATCH /api/db/conversations/:id\<close>, once the guard has passed, the one data
  call is an update of the conversation with the path id whose payload is the body's
  properties with \<^verbatim>\<open>updated_at\<close> set to the server's clock reading: an
  \<^verbatim>\<open>updated_at\<close> in the body is replaced, every other property is the body's. When
  the backend answers without an error the response is \<^verbatim>\<open>{ success: true }\<close>.
\<close>

theorem conversation_update_server_timestamp:
  assumes "bearer_token req = Some tok" and "tok \<noteq> []"
    and "auth_getUser w (user_client w tok) = Fulfilled r"
    and "read_prop (data r) ''user'' = Inr u"
    and "\<not> truthy (error r)" and "truthy u"
    and "c = user_client w tok"
    and "p = spread_with (body req) ''updated_at'' (JStr (now_iso w))"
  shows "fst (serve_db PatchConversation w req) =
           [AuthGetUser c,
            Db c (Query ''conversations'' (UpdateOp p) [StepEq ''id'' (JStr (params_id req))])]
         \<and> get_prop p ''updated_at'' = JStr (now_iso w)
         \<and> (\<forall>k. k \<noteq> ''updated_at'' \<longrightarrow> get_prop p k = get_prop (JObj (spread (body req))) k)
         \<and> (\<forall>rep. db w c (Query ''conversations'' (UpdateOp p)
                        [StepEq ''id'' (JStr (params_id req))]) = Fulfilled rep
                \<and> \<not> truthy (error rep)
              \<longrightarrow> snd (serve_db PatchConversation w req) = res_json (JObj [(''success'', JBool True)]))"
proof -
  have run: "serve_db PatchConversation w req =
      (AuthGetUser c # fst (update_conversation w (attach req c u)),
       snd (update_conversation w (attach req c u)))"
    unfolding serve_db_def assms(7) db_handler.simps by (rule auth_pass [OF assms(1-6)])
  have pay: "update_payload w (attach req c u) = p"
    by (simp add: update_payload_def attach_simps assms(8))
  have sent: "fst (serve_db PatchConversation w req) =
           [AuthGetUser c,
            Db c (Query ''conversations'' (UpdateOp p) [StepEq ''id'' (JStr (params_id req))])]"
    by (simp add: run update_conversation_run attach_simps pay update_query_def)
  have stamp: "get_prop p ''updated_at'' = JStr (now_iso w)"
    by (simp add: assms(8) get_prop_spread_with)
  have rest: "\<forall>k. k \<noteq> ''updated_at'' \<longrightarrow> get_prop p k = get_prop (JObj (spread (body req))) k"
    by (simp add: assms(8) get_prop_spread_with)
  have ack: "\<forall>rep. db w c (Query ''conversations'' (UpdateOp p)
                        [StepEq ''id'' (JStr (params_id req))]) = Fulfilled rep
                \<and> \<not> truthy (error rep)
              \<longrightarrow> snd (serve_db PatchConversation w req) = res_json (JObj [(''success'', JBool True)])"
    by (simp add: run update_conversation_run attach_simps pay update_query_def)
  from sent stamp rest ack show ?thesis by blast
qed

theorem conversation_update_server_timestamp_witness:
  "serve_db PatchConversation sample_world
     (sample_request (Some ''Bearer good'')
        (JObj [(''status'', JStr ''archived''), (''updated_at'', JStr ''1999-01-01'')])) =
     ([AuthGetUser (user_client sample_world ''good''),
       Db (user_client sample_world ''good'')
         (Query ''conversations''
            (UpdateOp (JObj [(''status'', JStr ''archived''),
                             (''updated_at'', JStr ''2024-05-01T10:00:00.000Z'')]))
            [StepEq ''id'' (JStr ''42'')])],
      res_json (JObj [(''success'', JBool True)]))"
proof -
  let ?b = "JObj [(''status'', JStr ''archived''), (''updated_at'', JStr ''1999-01-01'')]"
  let ?req = "sample_request (Some ''Bearer good'') ?b"
  let ?p = "JObj [(''status'', JStr ''archived''), (''updated_at'', JStr ''2024-05-01T10:00:00.000Z'')]"
  have e: "\<not> truthy (error \<lparr>data = JObj [(''user'', sample_user)], error = JNull\<rparr>)"
    by simp
  have u: "read_prop (data \<lparr>data = JObj [(''user'', sample_user)], error = JNull\<rparr>) ''user'' =
             Inr sample_user"
    by (simp add: sample_good(3))
  have p: "?p = spread_with (body ?req) ''updated_at'' (JStr (now_iso sample_world))"
    by (simp add: spread_with_def sample_request_def sample_world_def)
  have id: "params_id ?req = ''42''"
    by (simp add: sample_request_def)
  have rep: "db sample_world c (Query ''conversations'' (UpdateOp ?p) [StepEq ''id'' (JStr ''42'')]) =
      Fulfilled \<lparr>data = JNull, error = JNull\<rparr>" for c
    by (simp add: sample_world_def sample_db_def)
  from conversation_update_server_timestamp
         [OF sample_good(1) _ sample_good(2) u e sample_good(4) refl p] rep
  have "fst (serve_db PatchConversation sample_world ?req) =
          [AuthGetUser (user_client sample_world ''good''),
           Db (user_client sample_world ''good'')
             (Query ''conversations'' (UpdateOp ?p) [StepEq ''id'' (JStr ''42'')])]
        \<and> snd (serve_db PatchConversation sample_world ?req) =
          res_json (JObj [(''success'', JBool True)])"
    by (simp add: id)
  then show ?thesis by (simp add: prod_eq_iff)
qed

section \<open>Renaming a node\<close>

lemma update_node_title_run:
  "update_node_title w req =
     (if nullish (body req) then ([], db_catch w (TypeError (ReadOfNullish ''title'')))
      else
        ([Db (userClient req) (title_query (params_id req) (get_prop (body req) ''title''))],
         case db w (userClient req)
                (title_query (params_id req) (get_prop (body req) ''title'')) of
           Fulfilled r \<Rightarrow>
             if truthy (error r) then db_catch w (Thrown (error r))
             else res_json (JObj [(''success'', JBool True)])
         | RejectedWith err \<Rightarrow> db_catch w (Thrown (JObj err))))"
  by (simp add: update_node_title_def action_defs Let_def read_prop_def split: awaited.splits)

text \<open>
  C7. On \<^verbatim>\<open>PATCH /api/db/nodes/:id\<close>, once the guard has passed, the only data call
  is an update of the node with the path id whose payload has the single property
  \<^verbatim>\<open>title\<close>, taken from the body; nothing else of the body is sent. (A nullish body
  makes the handler fail before any update.) When the backend answers without an error
  the response is \<^verbatim>\<open>{ success: true }\<close>.
\<close>

theorem node_update_sends_only_title:
  assumes "bearer_token req = Some tok" and "tok \<noteq> []"
    and "auth_getUser w (user_client w tok) = Fulfilled r"
    and "read_prop (data r) ''user'' = Inr u"
    and "\<not> truthy (error r)" and "truthy u"
    and "c = user_client w tok"
    and "q = Query ''nodes'' (UpdateOp (JObj [(''title'', get_prop (body req) ''title'')]))
               [StepEq ''id'' (JStr (params_id req))]"
  shows "fst (serve_db PatchNode w req) =
           (if nullish (body req) then [AuthGetUser c] else [AuthGetUser c, Db c q])
         \<and> (\<forall>rep. \<not> nullish (body req) \<and> db w c q = Fulfilled rep \<and> \<not> truthy (error rep)
              \<longrightarrow> snd (serve_db PatchNode w req) = res_json (JObj [(''success'', JBool True)]))"
proof -
  have run: "serve_db PatchNode w req =
      (AuthGetUser c # fst (update_node_title w (attach req c u)),
       snd (update_node_title w (attach req c u)))"
    unfolding serve_db_def assms(7) db_handler.simps by (rule auth_pass [OF assms(1-6)])
  have q: "title_query (params_id req) (get_prop (body req) ''title'') = q"
    by (simp add: title_query_def assms(8))
  show ?thesis
    by (simp add: run update_node_title_run attach_simps q)
qed

theorem node_update_sends_only_title_witness:
  "serve_db PatchNode sample_world
     (sample_request (Some ''Bearer good'')
        (JObj [(''title'', JStr ''Renamed''), (''conversations_id'', JStr ''other''),
               (''user_id'', JStr ''intruder'')])) =
     ([AuthGetUser (user_client sample_world ''good''),
       Db (user_client sample_world ''good'')
         (Query ''nodes'' (UpdateOp (JObj [(''title'', JStr ''Renamed'')]))
            [StepEq ''id'' (JStr ''42'')])],
      res_json (JObj [(''success'', JBool True)]))"
proof -
  let ?b = "JObj [(''title'', JStr ''Renamed''), (''conversations_id'', JStr ''other''),
               (''user_id'', JStr ''intruder'')]"
  let ?req = "sample_request (Some ''Bearer good'') ?b"
  let ?q = "Query ''nodes'' (UpdateOp (JObj [(''title'', JStr ''Renamed'')]))
               [StepEq ''id'' (JStr ''42'')]"
  have e: "\<not> truthy (error \<lparr>data = JObj [(''user'', sample_user)], error = JNull\<rparr>)"
    by simp
  have u: "read_prop (data \<lparr>data = JObj [(''user'', sample_user)], error = JNull\<rparr>) ''user'' =
             Inr sample_user"
    by (simp add: sample_good(3))
  have q: "?q = Query ''nodes'' (UpdateOp (JObj [(''title'', get_prop (body ?req) ''title'')]))
               [StepEq ''id'' (JStr (params_id ?req))]"
    by (simp add: sample_request_def)
  have b: "\<not> nullish (body ?req)"
    by (simp add: sample_request_def)
  have rep: "db sample_world c ?q = Fulfilled \<lparr>data = JNull, error = JNull\<rparr>" for c
    by (simp add: sample_world_def sample_db_def)
  from node_update_sends_only_title
         [OF sample_good(1) _ sample_good(2) u e sample_good(4) refl q] rep b
  have "fst (serve_db PatchNode sample_world ?req) =
          [AuthGetUser (user_client sample_world ''good''), Db (user_client sample_world ''good'') ?q]
        \<and> snd (serve_db PatchNode sample_world ?req) = res_json (JObj [(''success'', JBool True)])"
    by simp
  then show ?thesis by (simp add: prod_eq_iff)
qed


section \<open>Failures of the AI providers\<close>








lemma history_entries:
  "\<not> truthy h \<Longrightarrow> iterate (js_or h (JArr [])) = Inr []"
  "iterate (js_or (JArr hs) (JArr [])) = Inr hs"
  "s \<noteq> [] \<Longrightarrow> iterate (js_or (JStr s) (JArr [])) = Inr (map (\<lambda>c. JStr [c]) s)"
  "iterate (js_or (JBool True) (JArr [])) = Inl (TypeError NotIterable)"
  "k \<noteq> 0 \<Longrightarrow> iterate (js_or (JNum k) (JArr [])) = Inl (TypeError NotIterable)"
  "iterate (js_or (JObj kvs) (JArr [])) = Inl (TypeError NotIterable)"
  by (simp_all add: iterate_def js_or_def)

lemma gemini_no_call:
  "nullish (body req) \<Longrightarrow> gemini_generate w req = ([], gemini_catch (TypeError (ReadOfNullish ''model'')))"
  "\<not> nullish (body req) \<Longrightarrow>
   iterate (js_or (get_prop (body req) ''history'') (JArr [])) = Inl e \<Longrightarrow>
   gemini_generate w req = ([], gemini_catch e)"
  by (simp_all add: gemini_generate_def gemini_try_def action_defs read_prop_def Let_def)






section \<open>The Gemini relay\<close>

lemma gemini_generate_run:
  assumes "\<not> nullish (body req)"
    and "iterate (js_or (get_prop (body req) ''history'') (JArr [])) = Inr hs"
    and "args = gemini_args (get_prop (body req) ''model'') hs (get_prop (body req) ''prompt'')"
  shows "gemini_generate w req =
           ([GeminiGenerate args],
            case genAI_generateContent w args of
              RejectedWith err \<Rightarrow> gemini_catch (Thrown (JObj err))
            | Fulfilled resp \<Rightarrow>
                if nullish resp then gemini_catch (TypeError (ReadOfNullish ''text''))
                else res_json (JObj [(''text'', get_prop resp ''text'')]))"
  using assms
  by (simp add: gemini_generate_def gemini_try_def action_defs Let_def read_prop_def
        split: awaited.splits)

lemma get_prop_other_key:
  "k \<noteq> k' \<Longrightarrow> get_prop (JObj (AList.update k' v kvs)) k = get_prop (JObj kvs) k"
  by (simp add: update_conv')

lemma gemini_ignores_files:
  "body req = JObj kvs \<Longrightarrow>
   gemini_generate w (req\<lparr>body := JObj (AList.update ''files'' v kvs)\<rparr>) = gemini_generate w req"
  by (simp add: gemini_generate_def gemini_try_def read_prop_def get_prop_other_key
        del: get_prop.simps)

text \<open>
  C9. On \<^verbatim>\<open>POST /api/gemini/generate\<close>, for every request. When the body is there
  and \<^verbatim>\<open>history\<close> is absent or otherwise falsy, an array, or a non-empty string,
  exactly one provider call is made: its \<^verbatim>\<open>contents\<close> are the history entries (none
  for a falsy history, the elements of an array, the characters of a string) followed
  by one user turn whose only part is the prompt text; its \<^verbatim>\<open>model\<close> is the body's,
  or \<^verbatim>\<open>gemini-1.5-flash\<close> when that is missing or falsy; it has no other argument.
  The response is then \<^verbatim>\<open>{ text }\<close> alone when the provider answers, and the fixed
  500 error when it rejects. For any other request (no body, or a history that cannot be
  iterated) no call is made and the answer is the fixed 500 error. Changing \<^verbatim>\<open>files\<close>
  in the body changes nothing.
\<close>

theorem gemini_contents_model_and_text:
  assumes "m = (if truthy (get_prop (body req) ''model'') then get_prop (body req) ''model''
                else JStr ''gemini-1.5-flash'')"
    and "turn = JObj [(''role'', JStr ''user''),
                      (''parts'', JArr [JObj [(''text'', get_prop (body req) ''prompt'')]])]"
    and "h = get_prop (body req) ''history''"
    and "failed = \<lparr>status = JNum 500, headers = [],
                   content = Json (JObj [(''error'', JStr ''Failed to fetch from Gemini'')])\<rparr>"
  shows "(\<not> nullish (body req)
           \<and> (\<not> truthy h \<and> hs = []
               \<or> h = JArr hs
               \<or> (\<exists>s. h = JStr s \<and> s \<noteq> [] \<and> hs = map (\<lambda>c. JStr [c]) s)) \<longrightarrow>
           gemini_generate w req =
             ([GeminiGenerate (JObj [(''model'', m), (''contents'', JArr (hs @ [turn]))])],
              case genAI_generateContent w (JObj [(''model'', m), (''contents'', JArr (hs @ [turn]))]) of
                Fulfilled resp \<Rightarrow>
                  if nullish resp then failed
                  else \<lparr>status = JNum 200, headers = [],
                        content = Json (JObj [(''text'', get_prop resp ''text'')])\<rparr>
              | RejectedWith err \<Rightarrow> failed))
         \<and> (nullish (body req) \<or> h = JBool True \<or> (\<exists>k. h = JNum k \<and> k \<noteq> 0)
             \<or> (\<exists>kvs. h = JObj kvs) \<longrightarrow>
           gemini_generate w req = ([], failed))
         \<and> (\<forall>kvs v. body req = JObj kvs \<longrightarrow>
               gemini_generate w (req\<lparr>body := JObj (AList.update ''files'' v kvs)\<rparr>) =
               gemini_generate w req)"
proof (intro conjI impI allI)
  assume a: "\<not> nullish (body req)
           \<and> (\<not> truthy h \<and> hs = []
               \<or> h = JArr hs
               \<or> (\<exists>s. h = JStr s \<and> s \<noteq> [] \<and> hs = map (\<lambda>c. JStr [c]) s))"
  then have it: "iterate (js_or (get_prop (body req) ''history'') (JArr [])) = Inr hs"
    unfolding assms(3) [symmetric] by (auto simp: history_entries)
  have args: "JObj [(''model'', m), (''contents'', JArr (hs @ [turn]))] =
      gemini_args (get_prop (body req) ''model'') hs (get_prop (body req) ''prompt'')"
    by (simp add: assms(1,2) gemini_args_def user_turn_def js_or_def)
  from a have nn: "\<not> nullish (body req)"
    by simp
  show "gemini_generate w req =
             ([GeminiGenerate (JObj [(''model'', m), (''contents'', JArr (hs @ [turn]))])],
              case genAI_generateContent w (JObj [(''model'', m), (''contents'', JArr (hs @ [turn]))]) of
                Fulfilled resp \<Rightarrow>
                  if nullish resp then failed
                  else \<lparr>status = JNum 200, headers = [],
                        content = Json (JObj [(''text'', get_prop resp ''text'')])\<rparr>
              | RejectedWith err \<Rightarrow> failed)"
    unfolding gemini_generate_run [OF nn it args]
    by (simp add: gemini_catch_def res_status_json_def res_json_def assms(4) split: awaited.splits)
next
  assume a: "nullish (body req) \<or> h = JBool True \<or> (\<exists>k. h = JNum k \<and> k \<noteq> 0)
             \<or> (\<exists>kvs. h = JObj kvs)"
  show "gemini_generate w req = ([], failed)"
  proof (cases "nullish (body req)")
    case True
    then show ?thesis
      by (simp add: gemini_no_call(1) gemini_catch_def res_status_json_def assms(4))
  next
    case False
    with a have "iterate (js_or (get_prop (body req) ''history'') (JArr [])) = Inl (TypeError NotIterable)"
      unfolding assms(3) [symmetric] by (auto simp: history_entries)
    from gemini_no_call(2) [OF False this] show ?thesis
      by (simp add: gemini_catch_def res_status_json_def assms(4))
  qed
next
  fix kvs v
  assume "body req = JObj kvs"
  then show "gemini_generate w (req\<lparr>body := JObj (AList.update ''files'' v kvs)\<rparr>) =
         gemini_generate w req"
    by (rule gemini_ignores_files)
qed


theorem gemini_contents_model_and_text_witness:
  "gemini_generate sample_world
     (sample_request None
        (JObj [(''prompt'', JStr ''hi''),
               (''history'', JArr [JObj [(''role'', JStr ''model''), (''parts'', JArr [])]]),
               (''files'', JArr [JStr ''aGVsbG8='']) ])) =
     ([GeminiGenerate
         (JObj [(''model'', JStr ''gemini-1.5-flash''),
                (''contents'',
                 JArr [JObj [(''role'', JStr ''model''), (''parts'', JArr [])],
                       JObj [(''role'', JStr ''user''),
                             (''parts'', JArr [JObj [(''text'', JStr ''hi'')]])]])])],
      \<lparr>status = JNum 200, headers = [], content = Json (JObj [(''text'', JStr ''hello'')])\<rparr>)
   \<and> gemini_generate sample_world
       (sample_request None (JObj [(''prompt'', JStr ''hi''), (''history'', JNull)])) =
     ([GeminiGenerate
         (JObj [(''model'', JStr ''gemini-1.5-flash''),
                (''contents'',
                 JArr [JObj [(''role'', JStr ''user''),
                             (''parts'', JArr [JObj [(''text'', JStr ''hi'')]])]])])],
      \<lparr>status = JNum 200, headers = [], content = Json (JObj [(''text'', JStr ''hello'')])\<rparr>)
   \<and> gemini_generate sample_world
       (sample_request None (JObj [(''prompt'', JStr ''hi''), (''history'', JObj [])])) =
     ([], \<lparr>status = JNum 500, headers = [],
           content = Json (JObj [(''error'', JStr ''Failed to fetch from Gemini'')])\<rparr>)
   \<and> gemini_generate sample_world
       (sample_request None
          (JObj [(''prompt'', JStr ''hi''),
                 (''history'', JArr [JObj [(''role'', JStr ''model''), (''parts'', JArr [])]]),
                 (''files'', JNull)])) =
     gemini_generate sample_world
       (sample_request None
          (JObj [(''prompt'', JStr ''hi''),
                 (''history'', JArr [JObj [(''role'', JStr ''model''), (''parts'', JArr [])]]),
                 (''files'', JArr [JStr ''aGVsbG8='']) ]))"
proof -
  let ?b = "JObj [(''prompt'', JStr ''hi''),
               (''history'', JArr [JObj [(''role'', JStr ''model''), (''parts'', JArr [])]]),
               (''files'', JArr [JStr ''aGVsbG8='']) ]"
  let ?req = "sample_request None ?b"
  let ?n = "sample_request None (JObj [(''prompt'', JStr ''hi''), (''history'', JNull)])"
  let ?o = "sample_request None (JObj [(''prompt'', JStr ''hi''), (''history'', JObj [])])"
  have b: "body ?req = ?b"
    "body ?n = JObj [(''prompt'', JStr ''hi''), (''history'', JNull)]"
    "body ?o = JObj [(''prompt'', JStr ''hi''), (''history'', JObj [])]"
    by (simp_all add: sample_request_def)
  have g: "genAI_generateContent sample_world a =
             Fulfilled (JObj [(''text'', JStr ''hello''), (''candidates'', JArr [])])" for a
    by (simp add: sample_world_def)
  note t = gemini_contents_model_and_text [OF refl refl refl refl]
  have 1: "gemini_generate sample_world ?req =
     ([GeminiGenerate
         (JObj [(''model'', JStr ''gemini-1.5-flash''),
                (''contents'',
                 JArr [JObj [(''role'', JStr ''model''), (''parts'', JArr [])],
                       JObj [(''role'', JStr ''user''),
                             (''parts'', JArr [JObj [(''text'', JStr ''hi'')]])]])])],
      \<lparr>status = JNum 200, headers = [], content = Json (JObj [(''text'', JStr ''hello'')])\<rparr>)"
    using t [where req = ?req and w = sample_world
               and hs = "[JObj [(''role'', JStr ''model''), (''parts'', JArr [])]]",
             THEN conjunct1]
    by (simp add: b g)
  have 2: "gemini_generate sample_world ?n =
     ([GeminiGenerate
         (JObj [(''model'', JStr ''gemini-1.5-flash''),
                (''contents'',
                 JArr [JObj [(''role'', JStr ''user''),
                             (''parts'', JArr [JObj [(''text'', JStr ''hi'')]])]])])],
      \<lparr>status = JNum 200, headers = [], content = Json (JObj [(''text'', JStr ''hello'')])\<rparr>)"
    using t [where req = ?n and w = sample_world and hs = "[]", THEN conjunct1]
    by (simp add: b g)
  have 3: "gemini_generate sample_world ?o =
     ([], \<lparr>status = JNum 500, headers = [],
           content = Json (JObj [(''error'', JStr ''Failed to fetch from Gemini'')])\<rparr>)"
    using t [where req = ?o and w = sample_world, THEN conjunct2, THEN conjunct1]
    by (simp add: b)
  from t [where req = ?req and w = sample_world, THEN conjunct2, THEN conjunct2, rule_format,
          OF b(1), of JNull]
  have 4: "gemini_generate sample_world
       (sample_request None
          (JObj [(''prompt'', JStr ''hi''),
                 (''history'', JArr [JObj [(''role'', JStr ''model''), (''parts'', JArr [])]]),
                 (''files'', JNull)])) =
     gemini_generate sample_world ?req"
    by (simp add: sample_request_def)
  from 1 2 3 4 show ?thesis by simp
qed

section \<open>The configuration endpoint\<close>

text \<open>
  C2. \<^verbatim>\<open>GET /api/config/supabase\<close> answers \<^verbatim>\<open>{ url, key }\<close> with the value of
  \<^verbatim>\<open>SUPABASE_KEY\<close>, the key every backend client of the server is created with. The
  handler does not look at the key: in a deployment configured with the service key, as
  the comment on lines 106-107 allows, that key is what the endpoint returns.
\<close>

theorem config_supabase_returns_server_key:
  "config_supabase service_key_world =
     ([], \<lparr>status = JNum 200, headers = [],
           content = Json (JObj [(''url'', JStr ''https://project.supabase.co''),
                                 (''key'', JStr ''service-role-key'')])\<rparr>)
   \<and> client_key (user_client service_key_world tok) = Some ''service-role-key''
   \<and> snd (config_supabase w) =
       res_json (JObj [(''url'', env_value (SUPABASE_URL w)), (''key'', env_value (SUPABASE_KEY w))])
   \<and> client_key (user_client w tok) = SUPABASE_KEY w"
  by (simp add: config_supabase_def service_key_world_def sample_world_def res_json_def
        env_value_def user_client_def createClient_def)

end
